theory Spec2Isabelle
  imports Complex_Main "HOL-Library.AList" "HOL-Library.Sublist"
begin

section \<open>Python values used by the monitor\<close>

text \<open>
  A Python \<open>str\<close> is a sequence of Unicode code points, so text is a list of code points.
  Source literals are written as HOL string literals and injected with \<open>ustr\<close>.
  A \<open>bytes\<close> object (the captured standard output of a child process) is a HOL
  \<open>string\<close>, whose characters are exactly the 256 byte values.
\<close>

type_synonym pystr = "nat list"

definition ustr :: "string \<Rightarrow> pystr" where
  "ustr s = map of_char s"

text \<open>
  The characters \<open>str.strip()\<close> removes and \<open>str.isspace()\<close> accepts: TAB, LF, VT, FF, CR,
  FS, GS, RS, US, SPACE, NEL, NBSP, U+1680, U+2000..U+200A, U+2028, U+2029, U+202F,
  U+205F, U+3000.
\<close>

definition is_space :: "nat \<Rightarrow> bool" where
  "is_space c \<longleftrightarrow>
     (9 \<le> c \<and> c \<le> 13) \<or> (28 \<le> c \<and> c \<le> 32) \<or> c = 133 \<or> c = 160 \<or> c = 5760 \<or>
     (8192 \<le> c \<and> c \<le> 8202) \<or> c = 8232 \<or> c = 8233 \<or> c = 8239 \<or> c = 8287 \<or> c = 12288"

definition strip :: "pystr \<Rightarrow> pystr" where
  "strip s = rev (dropWhile is_space (rev (dropWhile is_space s)))"

text \<open>
  The line boundaries of \<open>str.splitlines()\<close>: LF, VT, FF, CR (and CR LF as one boundary),
  FS, GS, RS, NEL, U+2028, U+2029.
\<close>

definition is_linebreak :: "nat \<Rightarrow> bool" where
  "is_linebreak c \<longleftrightarrow>
     (10 \<le> c \<and> c \<le> 13) \<or> (28 \<le> c \<and> c \<le> 30) \<or> c = 133 \<or> c = 8232 \<or> c = 8233"

text \<open>
  \<open>splitlines_from cur s\<close>: the lines of \<open>s\<close>, where \<open>cur\<close> is the part of the current line
  already scanned. Line breaks are not kept; a final line break opens no further line.
\<close>

fun splitlines_from :: "pystr \<Rightarrow> pystr \<Rightarrow> pystr list" where
  "splitlines_from cur [] = (if cur = [] then [] else [cur])"
| "splitlines_from cur [c] =
     (if is_linebreak c then [cur] else [cur @ [c]])"
| "splitlines_from cur (c # d # s) =
     (if c = 13 \<and> d = 10 then cur # splitlines_from [] s
      else if is_linebreak c then cur # splitlines_from [] (d # s)
      else splitlines_from (cur @ [c]) (d # s))"

definition splitlines :: "pystr \<Rightarrow> pystr list" where
  "splitlines s = splitlines_from [] s"


text \<open>
  Python floats: the finite values are idealised as reals (rounding is not modelled); the
  three special values are kept, since \<open>float()\<close> can produce them from text.
\<close>

datatype pyfloat = Finite real | PosInf | NegInf | NaN

text \<open>\<open>x > 200\<close> and \<open>x / 1000.0\<close> on a float.\<close>

fun exceeds_200 :: "pyfloat \<Rightarrow> bool" where
  "exceeds_200 (Finite r) = (r > 200)"
| "exceeds_200 PosInf = True"
| "exceeds_200 NegInf = False"
| "exceeds_200 NaN = False"

fun div_1000 :: "pyfloat \<Rightarrow> pyfloat" where
  "div_1000 (Finite r) = Finite (r / 1000)"
| "div_1000 PosInf = PosInf"
| "div_1000 NegInf = NegInf"
| "div_1000 NaN = NaN"

text \<open>
  The values the monitor stores and what \<open>json.loads\<close> can return. A dict is an association
  list in insertion order with distinct keys.
\<close>

datatype pyval =
    PNone
  | PBool bool
  | PInt int
  | PFloat pyfloat
  | PStr pystr
  | PList "pyval list"
  | PDict "(pystr \<times> pyval) list"

type_synonym pydict = "(pystr \<times> pyval) list"

text \<open>\<open>d.get(k)\<close> and \<open>d.get(k, default)\<close> on a dict; \<open>d[k] = v\<close>.\<close>

definition dget :: "pydict \<Rightarrow> pystr \<Rightarrow> pyval" where
  "dget d k = (case map_of d k of None \<Rightarrow> PNone | Some v \<Rightarrow> v)"

definition dget_default :: "pydict \<Rightarrow> pystr \<Rightarrow> pyval \<Rightarrow> pyval" where
  "dget_default d k dflt = (case map_of d k of None \<Rightarrow> dflt | Some v \<Rightarrow> v)"

definition dset :: "pydict \<Rightarrow> pystr \<Rightarrow> pyval \<Rightarrow> pydict" where
  "dset d k v = AList.update k v d"

text \<open>An exception: its class name and the text \<open>str(e)\<close> gives.\<close>

datatype pyexc = PyExc (exc_class: pystr) (exc_str: pystr)

text \<open>
  \<open>data.get(key)\<close> on an arbitrary value: only a dict has the method; on anything else the
  attribute lookup raises AttributeError.
\<close>

definition py_get :: "pyval \<Rightarrow> pystr \<Rightarrow> pyexc + pyval" where
  "py_get x k =
     (case x of
        PDict d \<Rightarrow> Inr (dget d k)
      | _ \<Rightarrow> Inl (PyExc (ustr ''AttributeError'') (ustr ''object has no attribute get'')))"


section \<open>Configuration\<close>

definition PIHOLE_SERVICES :: "pystr list" where
  "PIHOLE_SERVICES = [ustr ''pihole-FTL.service'']"

definition PIVPN_SERVICES :: "pystr list" where
  "PIVPN_SERVICES =
     [ustr ''wg-quick@wg0.service'', ustr ''openvpn.service'',
      ustr ''openvpn-server@server.service'']"

section \<open>Helpers\<close>

subsection \<open>Decoding captured output\<close>

text \<open>
  \<open>bytes.decode("utf-8", errors="ignore")\<close>: every well-formed UTF-8 sequence yields its code
  point and every byte that is not part of one is dropped. The call cannot raise.
\<close>

definition is_cont :: "nat \<Rightarrow> bool" where
  "is_cont b \<longleftrightarrow> 128 \<le> b \<and> b \<le> 191"

text \<open>
  \<open>utf8_seq b0 bs\<close>: when the lead byte \<open>b0\<close> (at least 128) followed by \<open>bs\<close> starts a
  well-formed multi-byte sequence, its code point and the number of continuation bytes.
\<close>

definition utf8_seq :: "nat \<Rightarrow> nat list \<Rightarrow> (nat \<times> nat) option" where
  "utf8_seq b0 bs =
     (if 194 \<le> b0 \<and> b0 \<le> 223 then
        (case bs of
           b1 # _ \<Rightarrow> if is_cont b1 then Some ((b0 - 192) * 64 + (b1 - 128), 1) else None
         | _ \<Rightarrow> None)
      else if 224 \<le> b0 \<and> b0 \<le> 239 then
        (case bs of
           b1 # b2 # _ \<Rightarrow>
             if is_cont b1 \<and> is_cont b2 \<and> (if b0 = 224 then 160 \<le> b1 else True) \<and>
                (if b0 = 237 then b1 \<le> 159 else True)
             then Some ((b0 - 224) * 4096 + (b1 - 128) * 64 + (b2 - 128), 2) else None
         | _ \<Rightarrow> None)
      else if 240 \<le> b0 \<and> b0 \<le> 244 then
        (case bs of
           b1 # b2 # b3 # _ \<Rightarrow>
             if is_cont b1 \<and> is_cont b2 \<and> is_cont b3 \<and> (if b0 = 240 then 144 \<le> b1 else True) \<and>
                (if b0 = 244 then b1 \<le> 143 else True)
             then Some ((b0 - 240) * 262144 + (b1 - 128) * 4096 + (b2 - 128) * 64 + (b3 - 128), 3)
             else None
         | _ \<Rightarrow> None)
      else None)"

fun utf8_ignore :: "nat list \<Rightarrow> pystr" where
  "utf8_ignore [] = []"
| "utf8_ignore (b0 # bs) =
     (if b0 < 128 then b0 # utf8_ignore bs
      else (case utf8_seq b0 bs of
              Some (cp, n) \<Rightarrow> cp # utf8_ignore (drop n bs)
            | None \<Rightarrow> utf8_ignore bs))"

definition decode_ignore :: "string \<Rightarrow> pystr" where
  "decode_ignore b = utf8_ignore (map of_char b)"

subsection \<open>Running commands\<close>

text \<open>
  What running a child process with a timeout can end in: the process exits with a return
  code and its captured standard output, the timeout expires, or the process cannot be
  started (missing binary, no permission), which raises in \<open>subprocess\<close>.
\<close>

datatype proc_outcome =
    Exited int string
  | TimedOut
  | NotStarted pyexc

text \<open>The operating system as the monitor sees it: what each command line ends in.\<close>

type_synonym cmd_env = "pystr list \<Rightarrow> proc_outcome"

text \<open>\<open>subprocess.check_output\<close>: the captured bytes on return code 0, an exception otherwise.\<close>

definition check_output :: "proc_outcome \<Rightarrow> pyexc + string" where
  "check_output oc =
     (case oc of
        Exited rc out \<Rightarrow>
          if rc = 0 then Inr out
          else Inl (PyExc (ustr ''CalledProcessError'') (ustr ''non-zero exit status''))
      | TimedOut \<Rightarrow> Inl (PyExc (ustr ''TimeoutExpired'') (ustr ''timed out''))
      | NotStarted e \<Rightarrow> Inl e)"

text \<open>
  \<open>run_cmd\<close>: the decoded output with surrounding whitespace stripped; every exception of the
  \<open>try\<close> body gives the empty text.
\<close>

definition run_cmd :: "cmd_env \<Rightarrow> pystr list \<Rightarrow> pystr" where
  "run_cmd env cmd =
     (case check_output (env cmd) of
        Inr out \<Rightarrow> strip (decode_ignore out)
      | Inl e \<Rightarrow> [])"

definition service_active :: "cmd_env \<Rightarrow> pystr \<Rightarrow> bool" where
  "service_active env unit_name =
     (if unit_name = [] then False
      else strip (run_cmd env [ustr ''systemctl'', ustr ''is-active'', unit_name]) = ustr ''active'')"

text \<open>\<open>any(service_active(s) for s in units)\<close>: stops at the first active unit.\<close>

fun any_active :: "cmd_env \<Rightarrow> pystr list \<Rightarrow> bool" where
  "any_active env [] = False"
| "any_active env (s # ss) = (if service_active env s then True else any_active env ss)"


subsection \<open>Library functions taken as given\<close>

text \<open>
  Three functions of the Python library are parameters of the model: the builtin
  \<open>float()\<close> with the three exceptions it can raise, \<open>json.loads\<close>, and the text Python
  prints for a float or a container.
\<close>

datatype float_conv = Converted pyfloat | ValueError | TypeError | OverflowError

record pylib =
  py_float :: "pyval \<Rightarrow> float_conv"
  json_loads :: "pystr \<Rightarrow> pyexc + pyval"
  py_repr :: "pyval \<Rightarrow> pystr"

subsection \<open>The machine\<close>

text \<open>
  A file as the helpers meet it: \<open>os.path.exists\<close> is false, or the file exists and opening
  or reading it raises, or reading gives a text.
\<close>

datatype file_state = NoFile | Unreadable | Content pystr

text \<open>
  The readings \<open>collect_system_stats\<close> takes from \<open>psutil\<close>, \<open>os\<close> and \<open>datetime\<close>; each of the
  first four may raise. Memory and disk readings are (total, used, percent).
\<close>

record os_probe =
  cpu_percent_now :: "pyexc + pyfloat"
  getloadavg :: "pyexc + (pyfloat \<times> pyfloat \<times> pyfloat)"
  virtual_memory :: "pyexc + (int \<times> int \<times> pyfloat)"
  disk_usage_root :: "pyexc + (int \<times> int \<times> pyfloat)"
  utcnow_isoformat :: pystr

record world =
  cmds :: cmd_env
  files :: "pystr \<Rightarrow> file_state"
  probe :: os_probe

subsection \<open>Temperature and uptime\<close>

definition TEMP_PATHS :: "pystr list" where
  "TEMP_PATHS =
     [ustr ''/sys/class/thermal/thermal_zone0/temp'',
      ustr ''/sys/class/hwmon/hwmon0/temp1_input'']"

text \<open>
  The loop of \<open>get_cpu_temp_c\<close> over the candidate paths: a path that does not exist is
  skipped; an exception while reading or in \<open>float(val)\<close> continues with the next path.
\<close>

fun temp_from_paths :: "pylib \<Rightarrow> (pystr \<Rightarrow> file_state) \<Rightarrow> pystr list \<Rightarrow> pyfloat option" where
  "temp_from_paths lib fs [] = None"
| "temp_from_paths lib fs (p # ps) =
     (case fs p of
        NoFile \<Rightarrow> temp_from_paths lib fs ps
      | Unreadable \<Rightarrow> temp_from_paths lib fs ps
      | Content txt \<Rightarrow>
          (case py_float lib (PStr (strip txt)) of
             Converted x \<Rightarrow> Some (if exceeds_200 x then div_1000 x else x)
           | _ \<Rightarrow> temp_from_paths lib fs ps))"

definition get_cpu_temp_c :: "pylib \<Rightarrow> (pystr \<Rightarrow> file_state) \<Rightarrow> pyfloat option" where
  "get_cpu_temp_c lib fs = temp_from_paths lib fs TEMP_PATHS"

text \<open>\<open>f.read().split()[0]\<close>: the first whitespace-separated word; IndexError when there is none.\<close>

definition first_word :: "pystr \<Rightarrow> pystr option" where
  "first_word s =
     (let w = takeWhile (\<lambda>c. \<not> is_space c) (dropWhile is_space s)
      in if w = [] then None else Some w)"

definition get_uptime_seconds :: "pylib \<Rightarrow> (pystr \<Rightarrow> file_state) \<Rightarrow> pyfloat option" where
  "get_uptime_seconds lib fs =
     (case fs (ustr ''/proc/uptime'') of
        Content txt \<Rightarrow>
          (case first_word txt of
             None \<Rightarrow> None
           | Some w \<Rightarrow> (case py_float lib (PStr w) of Converted x \<Rightarrow> Some x | _ \<Rightarrow> None))
      | _ \<Rightarrow> None)"

definition opt_float :: "pyfloat option \<Rightarrow> pyval" where
  "opt_float x = (case x of None \<Rightarrow> PNone | Some f \<Rightarrow> PFloat f)"

section \<open>Collectors\<close>

definition collect_system_stats :: "pylib \<Rightarrow> world \<Rightarrow> pyexc + pydict" where
  "collect_system_stats lib w =
     (case cpu_percent_now (probe w) of
        Inl e \<Rightarrow> Inl e
      | Inr cpu_percent \<Rightarrow>
     (case getloadavg (probe w) of
        Inl e \<Rightarrow> Inl e
      | Inr (load1, load5, load15) \<Rightarrow>
     (case virtual_memory (probe w) of
        Inl e \<Rightarrow> Inl e
      | Inr (mem_total, mem_used, mem_percent) \<Rightarrow>
     (case disk_usage_root (probe w) of
        Inl e \<Rightarrow> Inl e
      | Inr (disk_total, disk_used, disk_percent) \<Rightarrow>
          (let temp_c = get_cpu_temp_c lib (files w);
               uptime = get_uptime_seconds lib (files w)
           in Inr
             [(ustr ''time'', PStr (utcnow_isoformat (probe w) @ ustr ''Z'')),
              (ustr ''cpu_percent'', PFloat cpu_percent),
              (ustr ''load_1'', PFloat load1),
              (ustr ''load_5'', PFloat load5),
              (ustr ''load_15'', PFloat load15),
              (ustr ''mem_total'', PInt mem_total),
              (ustr ''mem_used'', PInt mem_used),
              (ustr ''mem_percent'', PFloat mem_percent),
              (ustr ''disk_total'', PInt disk_total),
              (ustr ''disk_used'', PInt disk_used),
              (ustr ''disk_percent'', PFloat disk_percent),
              (ustr ''temp_c'', opt_float temp_c),
              (ustr ''uptime_seconds'', opt_float uptime)])))))"

definition STAT_KEYS :: "pystr list" where
  "STAT_KEYS =
     [ustr ''dns_queries_today'', ustr ''ads_blocked_today'',
      ustr ''ads_percentage_today'', ustr ''domains_being_blocked'']"

text \<open>
  The \<open>for key in [...]\<close> loop inside the \<open>try\<close> of \<open>collect_pihole_stats\<close>: it stores into
  \<open>stats\<close> key by key; when \<open>data.get\<close> raises, the \<open>except\<close> clause passes and \<open>stats\<close>
  stays as filled so far.
\<close>

fun fill_stats :: "pyval \<Rightarrow> pystr list \<Rightarrow> pydict \<Rightarrow> pydict" where
  "fill_stats data [] stats = stats"
| "fill_stats data (key # keys) stats =
     (case py_get data key of
        Inl e \<Rightarrow> stats
      | Inr v \<Rightarrow> fill_stats data keys (dset stats key v))"

text \<open>The \<open>stats\<close> dict built from the text \<open>raw\<close> that \<open>pihole -c -j\<close> printed.\<close>

definition pihole_stats_of :: "pylib \<Rightarrow> pystr \<Rightarrow> pydict" where
  "pihole_stats_of lib raw =
     (if raw \<noteq> [] then
        (case json_loads lib raw of
           Inl e \<Rightarrow> []
         | Inr data \<Rightarrow> fill_stats data STAT_KEYS [])
      else [])"

definition collect_pihole_stats :: "pylib \<Rightarrow> world \<Rightarrow> pydict" where
  "collect_pihole_stats lib w =
     (let service_ok = any_active (cmds w) PIHOLE_SERVICES;
          raw = run_cmd (cmds w) [ustr ''pihole'', ustr ''-c'', ustr ''-j''];
          stats = pihole_stats_of lib raw
      in [(ustr ''service_ok'', PBool service_ok), (ustr ''stats'', PDict stats)])"

text \<open>The client count parsed from the text \<open>raw\<close> that \<open>pivpn -c\<close> printed.\<close>

definition client_lines :: "pystr \<Rightarrow> pystr list" where
  "client_lines raw = filter (\<lambda>l. strip l \<noteq> []) (splitlines raw)"

definition connected_clients_of :: "pystr \<Rightarrow> pyval" where
  "connected_clients_of raw =
     (if raw \<noteq> [] then
        (let lines = client_lines raw
         in if length lines > 3 then PInt (int (length lines) - 3) else PNone)
      else PNone)"

definition collect_pivpn_stats :: "world \<Rightarrow> pydict" where
  "collect_pivpn_stats w =
     (let service_ok = any_active (cmds w) PIVPN_SERVICES;
          raw = run_cmd (cmds w) [ustr ''pivpn'', ustr ''-c'']
      in [(ustr ''service_ok'', PBool service_ok),
          (ustr ''connected_clients'', connected_clients_of raw)])"

section \<open>Shared state and the poll loop\<close>

text \<open>
  \<open>STATE\<close> is a module-level dict whose keys \<open>system\<close>, \<open>pihole\<close> and \<open>pivpn\<close> exist from the
  start and always hold dicts; the key \<open>last_error\<close> is missing until a cycle faults.
\<close>

record state =
  system :: pydict
  pihole :: pydict
  pivpn :: pydict
  last_error :: "pystr option"

definition STATE_init :: state where
  "STATE_init = \<lparr>system = [], pihole = [], pivpn = [], last_error = None\<rparr>"

text \<open>
  The body of the \<open>while True\<close> loop, given what the three collector calls end in. The
  collectors run before the first assignment, so a fault skips all three assignments and
  the handler stores \<open>str(e)\<close>. A collector after a faulting one is not called.
\<close>

definition poll_cycle ::
  "(pyexc + pydict) \<Rightarrow> (pyexc + pydict) \<Rightarrow> (pyexc + pydict) \<Rightarrow> state \<Rightarrow> state" where
  "poll_cycle sys_r ph_r pv_r st =
     (case sys_r of
        Inl e \<Rightarrow> st\<lparr>last_error := Some (exc_str e)\<rparr>
      | Inr system_stats \<Rightarrow>
     (case ph_r of
        Inl e \<Rightarrow> st\<lparr>last_error := Some (exc_str e)\<rparr>
      | Inr pihole_stats \<Rightarrow>
     (case pv_r of
        Inl e \<Rightarrow> st\<lparr>last_error := Some (exc_str e)\<rparr>
      | Inr pivpn_stats \<Rightarrow>
          ((st\<lparr>system := system_stats\<rparr>)\<lparr>pihole := pihole_stats\<rparr>)\<lparr>pivpn := pivpn_stats\<rparr>)))"

definition update_iteration :: "pylib \<Rightarrow> world \<Rightarrow> state \<Rightarrow> state" where
  "update_iteration lib w st =
     poll_cycle (collect_system_stats lib w) (Inr (collect_pihole_stats lib w))
       (Inr (collect_pivpn_stats w)) st"

text \<open>
  \<open>update_loop\<close> never returns; its effect after the first iterations is the fold of the
  loop body over the machine states the iterations saw.
\<close>

fun update_loop :: "pylib \<Rightarrow> world list \<Rightarrow> state \<Rightarrow> state" where
  "update_loop lib [] st = st"
| "update_loop lib (w # ws) st = update_loop lib ws (update_iteration lib w st)"


section \<open>HTTP handlers\<close>

definition bool_to_status :: "pyval \<Rightarrow> pystr" where
  "bool_to_status ok =
     (if ok = PBool True then ustr ''OK''
      else if ok = PBool False then ustr ''DOWN''
      else ustr ''UNKNOWN'')"

definition opt_str :: "pystr option \<Rightarrow> pyval" where
  "opt_str x = (case x of None \<Rightarrow> PNone | Some s \<Rightarrow> PStr s)"


text \<open>The \<open>health\<close> dict that \<open>handle_health\<close> builds from the three entries it reads.\<close>

definition health_of :: "state \<Rightarrow> pydict" where
  "health_of st =
     (let sys_s = system st; ph_s = pihole st; pv_s = pivpn st
      in [(ustr ''system'', PDict
            [(ustr ''cpu_percent'', dget sys_s (ustr ''cpu_percent'')),
             (ustr ''mem_percent'', dget sys_s (ustr ''mem_percent'')),
             (ustr ''disk_percent'', dget sys_s (ustr ''disk_percent'')),
             (ustr ''temp_c'', dget sys_s (ustr ''temp_c'')),
             (ustr ''uptime_seconds'', dget sys_s (ustr ''uptime_seconds''))]),
          (ustr ''pihole'', PDict
            [(ustr ''status'', PStr (bool_to_status (dget ph_s (ustr ''service_ok'')))),
             (ustr ''stats'', dget_default ph_s (ustr ''stats'') (PDict []))]),
          (ustr ''pivpn'', PDict
            [(ustr ''status'', PStr (bool_to_status (dget pv_s (ustr ''service_ok'')))),
             (ustr ''connected_clients'', dget pv_s (ustr ''connected_clients''))]),
          (ustr ''overall_ok'',
             PBool (dget ph_s (ustr ''service_ok'') = PBool True \<and>
                    dget pv_s (ustr ''service_ok'') = PBool True)),
          (ustr ''last_update'', dget sys_s (ustr ''time'')),
          (ustr ''last_error'', opt_str (last_error st))])"


subsection \<open>Metrics\<close>













section \<open>The poll loop and the request handlers running together\<close>

text \<open>
  \<open>update_loop\<close> runs in one thread and every request is handled in the server's thread
  while the loop runs; nothing in the program locks \<open>STATE\<close>. Each store into \<open>STATE\<close> and each
  \<open>STATE.get\<close> is one step, and between two steps of one thread the other threads may
  take any number of steps. What the three collector calls of iteration \<open>i\<close> end in is given
  by the environment.
\<close>

datatype cycle_outcome = Collected pydict pydict pydict | Faulted pyexc

text \<open>The record iteration \<open>i\<close> collected for each of the three entries, if it collected any.\<close>

fun collected_system :: "cycle_outcome \<Rightarrow> pydict option" where
  "collected_system (Collected s p v) = Some s"
| "collected_system (Faulted e) = None"

fun collected_pihole :: "cycle_outcome \<Rightarrow> pydict option" where
  "collected_pihole (Collected s p v) = Some p"
| "collected_pihole (Faulted e) = None"

fun collected_pivpn :: "cycle_outcome \<Rightarrow> pydict option" where
  "collected_pivpn (Collected s p v) = Some v"
| "collected_pivpn (Faulted e) = None"

text \<open>
  A value read from an entry, together with its origin: the number of the iteration whose
  assignment stored it, or None for the initial empty dict. The origin is bookkeeping of
  the model; the program does not store it.
\<close>

type_synonym tagged = "nat option \<times> pydict"

text \<open>
  Where the loop body stands: before the collector calls, before each of the three
  assignments (holding the records still to be stored), before the store of the handler,
  and in \<open>time.sleep\<close>.
\<close>

datatype writer_pc =
    Collecting
  | StoreSystem pydict pydict pydict
  | StorePihole pydict pydict
  | StorePivpn pydict
  | StoreError pyexc
  | Sleeping

text \<open>
  Where a request handler stands: before its first read, after reading \<open>system\<close>, after
  reading \<open>pihole\<close>, and after reading \<open>pivpn\<close>, when it holds the three values its response
  is built from.
\<close>

datatype reader_pc =
    Idle
  | GotSystem tagged
  | GotPihole tagged tagged
  | Done tagged tagged tagged

record config =
  shared :: state
  origin_system :: "nat option"
  origin_pihole :: "nat option"
  origin_pivpn :: "nat option"
  iteration :: nat
  writer :: writer_pc
  readers :: "reader_pc list"

definition initial_config :: "nat \<Rightarrow> config" where
  "initial_config n =
     \<lparr>shared = STATE_init, origin_system = None, origin_pihole = None, origin_pivpn = None,
      iteration = 0, writer = Collecting, readers = replicate n Idle\<rparr>"

inductive step :: "(nat \<Rightarrow> cycle_outcome) \<Rightarrow> config \<Rightarrow> config \<Rightarrow> bool"
  for env :: "nat \<Rightarrow> cycle_outcome" where
  collect_ok:
    "writer c = Collecting \<Longrightarrow> env (iteration c) = Collected s p v \<Longrightarrow>
     step env c (c\<lparr>writer := StoreSystem s p v\<rparr>)"
| collect_fault:
    "writer c = Collecting \<Longrightarrow> env (iteration c) = Faulted e \<Longrightarrow>
     step env c (c\<lparr>writer := StoreError e\<rparr>)"
| store_system:
    "writer c = StoreSystem s p v \<Longrightarrow>
     step env c (c\<lparr>shared := (shared c)\<lparr>system := s\<rparr>, origin_system := Some (iteration c),
                    writer := StorePihole p v\<rparr>)"
| store_pihole:
    "writer c = StorePihole p v \<Longrightarrow>
     step env c (c\<lparr>shared := (shared c)\<lparr>pihole := p\<rparr>, origin_pihole := Some (iteration c),
                    writer := StorePivpn v\<rparr>)"
| store_pivpn:
    "writer c = StorePivpn v \<Longrightarrow>
     step env c (c\<lparr>shared := (shared c)\<lparr>pivpn := v\<rparr>, origin_pivpn := Some (iteration c),
                    writer := Sleeping\<rparr>)"
| store_error:
    "writer c = StoreError e \<Longrightarrow>
     step env c (c\<lparr>shared := (shared c)\<lparr>last_error := Some (exc_str e)\<rparr>, writer := Sleeping\<rparr>)"
| wake:
    "writer c = Sleeping \<Longrightarrow>
     step env c (c\<lparr>iteration := Suc (iteration c), writer := Collecting\<rparr>)"
| read_system:
    "i < length (readers c) \<Longrightarrow> readers c ! i = Idle \<Longrightarrow>
     step env c (c\<lparr>readers := (readers c)[i := GotSystem (origin_system c, system (shared c))]\<rparr>)"
| read_pihole:
    "i < length (readers c) \<Longrightarrow> readers c ! i = GotSystem a \<Longrightarrow>
     step env c (c\<lparr>readers := (readers c)[i := GotPihole a (origin_pihole c, pihole (shared c))]\<rparr>)"
| read_pivpn:
    "i < length (readers c) \<Longrightarrow> readers c ! i = GotPihole a b \<Longrightarrow>
     step env c (c\<lparr>readers := (readers c)[i := Done a b (origin_pivpn c, pivpn (shared c))]\<rparr>)"
| next_request:
    "i < length (readers c) \<Longrightarrow> readers c ! i = Done a b d \<Longrightarrow>
     step env c (c\<lparr>readers := (readers c)[i := Idle]\<rparr>)"

text \<open>The configurations an execution with \<open>n\<close> request handlers can be in.\<close>

inductive reachable :: "(nat \<Rightarrow> cycle_outcome) \<Rightarrow> nat \<Rightarrow> config \<Rightarrow> bool"
  for env :: "nat \<Rightarrow> cycle_outcome" and n :: nat where
  start: "reachable env n (initial_config n)"
| later: "reachable env n c \<Longrightarrow> step env c c' \<Longrightarrow> reachable env n c'"

section \<open>Notions the properties are stated with\<close>

text \<open>
  The service manager reports a unit active: \<open>systemctl is-active unit\<close> exits with status 0
  and prints the word \<open>active\<close>, surrounded by whitespace at most.
\<close>

definition reports_active :: "cmd_env \<Rightarrow> pystr \<Rightarrow> bool" where
  "reports_active env u =
     (case env [ustr ''systemctl'', ustr ''is-active'', u] of
        Exited rc out \<Rightarrow> rc = 0 \<and> strip (decode_ignore out) = ustr ''active''
      | _ \<Rightarrow> False)"

text \<open>
  The numeric raw value read from one candidate thermal path, when the path exists, can be
  read, and its stripped content is accepted by \<open>float()\<close>.
\<close>

definition raw_reading :: "pylib \<Rightarrow> (pystr \<Rightarrow> file_state) \<Rightarrow> pystr \<Rightarrow> pyfloat option" where
  "raw_reading lib fs p =
     (case fs p of
        Content txt \<Rightarrow>
          (case py_float lib (PStr (strip txt)) of Converted x \<Rightarrow> Some x | _ \<Rightarrow> None)
      | _ \<Rightarrow> None)"


text \<open>
  The lines of a text that are not empty, counted as the words "non-empty line" say, and
  the client count that reading gives.
\<close>

definition nonempty_line_count :: "pystr \<Rightarrow> nat" where
  "nonempty_line_count raw = length (filter (\<lambda>l. l \<noteq> []) (splitlines raw))"

definition spec_connected_clients :: "pystr \<Rightarrow> pyval" where
  "spec_connected_clients raw =
     (let n = nonempty_line_count raw in if n > 3 then PInt (int n - 3) else PNone)"

text \<open>The lines of a text that hold at least one character that is not whitespace.\<close>

definition nonblank_line_count :: "pystr \<Rightarrow> nat" where
  "nonblank_line_count raw =
     length (filter (\<lambda>l. \<not> list_all is_space l) (splitlines raw))"

text \<open>The first fault among what the three collector calls of one iteration end in.\<close>

definition first_fault ::
  "(pyexc + pydict) \<Rightarrow> (pyexc + pydict) \<Rightarrow> (pyexc + pydict) \<Rightarrow> pyexc option" where
  "first_fault sys_r ph_r pv_r =
     (case sys_r of
        Inl e \<Rightarrow> Some e
      | Inr _ \<Rightarrow>
          (case ph_r of
             Inl e \<Rightarrow> Some e
           | Inr _ \<Rightarrow> (case pv_r of Inl e \<Rightarrow> Some e | Inr _ \<Rightarrow> None)))"

text \<open>The status a health dict reports for a service.\<close>

definition service_status :: "pydict \<Rightarrow> pystr \<Rightarrow> pyval" where
  "service_status health svc =
     (case dget health svc of PDict d \<Rightarrow> dget d (ustr ''status'') | _ \<Rightarrow> PNone)"

text \<open>
  The three values of one response are not torn: they are the three initial dicts, or all
  three were stored by the same iteration.
\<close>

definition untorn :: "tagged \<Rightarrow> tagged \<Rightarrow> tagged \<Rightarrow> bool" where
  "untorn a b d \<longleftrightarrow> fst a = fst b \<and> fst b = fst d"

text \<open>
  A value read from an entry is whole: the initial empty dict, or exactly the record the
  iteration of its origin collected for that entry.
\<close>

definition whole :: "(nat \<Rightarrow> cycle_outcome) \<Rightarrow> (cycle_outcome \<Rightarrow> pydict option) \<Rightarrow> tagged \<Rightarrow> bool" where
  "whole env part t \<longleftrightarrow>
     (fst t = None \<and> snd t = []) \<or> (\<exists>i. fst t = Some i \<and> part (env i) = Some (snd t))"

fun reader_whole :: "(nat \<Rightarrow> cycle_outcome) \<Rightarrow> reader_pc \<Rightarrow> bool" where
  "reader_whole env Idle = True"
| "reader_whole env (GotSystem a) = whole env collected_system a"
| "reader_whole env (GotPihole a b) =
     (whole env collected_system a \<and> whole env collected_pihole b)"
| "reader_whole env (Done a b d) =
     (whole env collected_system a \<and> whole env collected_pihole b \<and> whole env collected_pivpn d)"

text \<open>The loop body is not between the first and the last of its three assignments.\<close>

fun outside_assignments :: "writer_pc \<Rightarrow> bool" where
  "outside_assignments (StorePihole p v) = False"
| "outside_assignments (StorePivpn v) = False"
| "outside_assignments w = True"

text \<open>
  What holds of every configuration an execution reaches: every stored entry and every
  value a handler holds is whole, and the stored origins follow the position of the loop
  body.
\<close>

definition writer_inv :: "(nat \<Rightarrow> cycle_outcome) \<Rightarrow> config \<Rightarrow> bool" where
  "writer_inv env c =
     (case writer c of
        StoreSystem s p v \<Rightarrow>
          env (iteration c) = Collected s p v \<and>
          origin_system c = origin_pihole c \<and> origin_pihole c = origin_pivpn c
      | StorePihole p v \<Rightarrow>
          collected_pihole (env (iteration c)) = Some p \<and>
          collected_pivpn (env (iteration c)) = Some v \<and>
          origin_system c = Some (iteration c) \<and> origin_pihole c = origin_pivpn c
      | StorePivpn v \<Rightarrow>
          collected_pivpn (env (iteration c)) = Some v \<and>
          origin_system c = Some (iteration c) \<and> origin_pihole c = Some (iteration c)
      | _ \<Rightarrow> origin_system c = origin_pihole c \<and> origin_pihole c = origin_pivpn c)"

definition config_inv :: "(nat \<Rightarrow> cycle_outcome) \<Rightarrow> config \<Rightarrow> bool" where
  "config_inv env c \<longleftrightarrow>
     whole env collected_system (origin_system c, system (shared c)) \<and>
     whole env collected_pihole (origin_pihole c, pihole (shared c)) \<and>
     whole env collected_pivpn (origin_pivpn c, pivpn (shared c)) \<and>
     list_all (reader_whole env) (readers c) \<and>
     writer_inv env c"

text \<open>Some line of a metrics text is a line \<open>name value\<close> for the given name.\<close>

definition has_metric :: "pystr \<Rightarrow> pystr list \<Rightarrow> bool" where
  "has_metric name ls = list_ex (\<lambda>l. prefix (name @ [32]) l) ls"


section \<open>Example machines\<close>

text \<open>A command environment in which every command prints \<open>hi\<close> and a newline and exits with 0.\<close>

definition echo_env :: cmd_env where
  "echo_env cmd = Exited 0 ''hi\<newline>''"

text \<open>A command whose output starts with a byte that is not valid UTF-8.\<close>

definition stray_byte_env :: cmd_env where
  "stray_byte_env cmd = Exited 0 [CHR 0xFF, CHR ''o'', CHR ''k'']"

text \<open>A service manager for which only \<open>b.service\<close> is active; \<open>is-active\<close> exits with 3 otherwise.\<close>

definition ab_env :: cmd_env where
  "ab_env cmd =
     (if cmd = [ustr ''systemctl'', ustr ''is-active'', ustr ''b.service'']
      then Exited 0 ''active\<newline>'' else Exited 3 ''inactive\<newline>'')"

text \<open>A \<open>float()\<close> that knows the four texts of the temperature examples, and a library around it.\<close>

definition ex_float :: "pyval \<Rightarrow> float_conv" where
  "ex_float v =
     (if v = PStr (ustr ''45000'') then Converted (Finite 45000)
      else if v = PStr (ustr ''45.0'') then Converted (Finite 45)
      else if v = PStr (ustr ''199.9'') then Converted (Finite 199.9)
      else if v = PStr (ustr ''200.1'') then Converted (Finite 200.1)
      else ValueError)"

definition ex_loads :: "pystr \<Rightarrow> pyexc + pyval" where
  "ex_loads s =
     (if s = ustr ''{\"ads_blocked_today\": 7, \"status\": \"enabled\"}''
      then Inr (PDict [(ustr ''ads_blocked_today'', PInt 7), (ustr ''status'', PStr (ustr ''enabled''))])
      else if s = ustr ''[1]'' then Inr (PList [PInt 1])
      else Inl (PyExc (ustr ''JSONDecodeError'') (ustr ''Expecting value'')))"

definition ex_repr :: "pyval \<Rightarrow> pystr" where
  "ex_repr v =
     (if v = PFloat (Finite 45) then ustr ''45.0''
      else if v = PFloat (Finite 12.5) then ustr ''12.5''
      else if v = PFloat (Finite 0.5) then ustr ''0.5''
      else if v = PFloat (Finite 0.25) then ustr ''0.25''
      else if v = PFloat (Finite 0.125) then ustr ''0.125''
      else if v = PFloat (Finite 40) then ustr ''40.0''
      else if v = PFloat (Finite 25) then ustr ''25.0''
      else ustr ''nan'')"

definition ex_lib :: pylib where
  "ex_lib = \<lparr>py_float = ex_float, json_loads = ex_loads, py_repr = ex_repr\<rparr>"

text \<open>A file system in which only the first thermal path exists, with the given content.\<close>

definition thermal_fs :: "pystr \<Rightarrow> pystr \<Rightarrow> file_state" where
  "thermal_fs txt p =
     (if p = ustr ''/sys/class/thermal/thermal_zone0/temp'' then Content txt else NoFile)"


text \<open>Outputs of the client-list command: three header lines and two clients; two lines;
  three header lines, a line holding one space, and one client.\<close>

definition five_lines :: pystr where
  "five_lines = ustr ''header 1\<newline>header 2\<newline>header 3\<newline>client a\<newline>client b''"

definition two_lines :: pystr where
  "two_lines = ustr ''header 1\<newline>header 2''"

definition blank_line_output :: pystr where
  "blank_line_output = ustr ''h1\<newline>h2\<newline>h3\<newline> \<newline>c1''"

text \<open>
  A machine on which \<open>pihole-FTL.service\<close> is active, no VPN unit is, \<open>pihole -c -j\<close> prints
  the given bytes and \<open>pivpn -c\<close> the three headers, the blank line and the client.
\<close>

definition ex_cmds :: "string \<Rightarrow> cmd_env" where
  "ex_cmds pihole_out cmd =
     (if cmd = [ustr ''pihole'', ustr ''-c'', ustr ''-j''] then Exited 0 pihole_out
      else if cmd = [ustr ''pivpn'', ustr ''-c'']
        then Exited 0 ''h1\<newline>h2\<newline>h3\<newline> \<newline>c1\<newline>''
      else if cmd = [ustr ''systemctl'', ustr ''is-active'', ustr ''pihole-FTL.service'']
        then Exited 0 ''active\<newline>''
      else Exited 3 ''inactive\<newline>'')"

definition good_probe :: os_probe where
  "good_probe =
     \<lparr>cpu_percent_now = Inr (Finite 12.5),
      getloadavg = Inr (Finite 0.5, Finite 0.25, Finite 0.125),
      virtual_memory = Inr (1000, 400, Finite 40),
      disk_usage_root = Inr (2000, 500, Finite 25),
      utcnow_isoformat = ustr ''2024-01-01T00:00:00''\<rparr>"

definition boom :: pyexc where
  "boom = PyExc (ustr ''OSError'') (ustr ''boom'')"

definition faulty_probe :: os_probe where
  "faulty_probe = good_probe\<lparr>getloadavg := Inl boom\<rparr>"

definition good_world :: world where
  "good_world =
     \<lparr>cmds = ex_cmds ''not json'', files = thermal_fs (ustr ''45000\<newline>''), probe = good_probe\<rparr>"

definition faulty_world :: world where
  "faulty_world = good_world\<lparr>probe := faulty_probe\<rparr>"


text \<open>The system record the collector builds on the good machine.\<close>

definition good_system :: pydict where
  "good_system =
     [(ustr ''time'', PStr (ustr ''2024-01-01T00:00:00Z'')),
      (ustr ''cpu_percent'', PFloat (Finite 12.5)),
      (ustr ''load_1'', PFloat (Finite 0.5)),
      (ustr ''load_5'', PFloat (Finite 0.25)),
      (ustr ''load_15'', PFloat (Finite 0.125)),
      (ustr ''mem_total'', PInt 1000),
      (ustr ''mem_used'', PInt 400),
      (ustr ''mem_percent'', PFloat (Finite 40)),
      (ustr ''disk_total'', PInt 2000),
      (ustr ''disk_used'', PInt 500),
      (ustr ''disk_percent'', PFloat (Finite 25)),
      (ustr ''temp_c'', PFloat (Finite 45)),
      (ustr ''uptime_seconds'', PNone)]"

text \<open>
  An execution with one request handler in which every iteration collects what the good
  machine gives, and the configuration in which the handler has read all three entries
  between the loop's first and second assignment of iteration 0.
\<close>

definition good_pihole :: pydict where
  "good_pihole = [(ustr ''service_ok'', PBool True), (ustr ''stats'', PDict [])]"

definition good_pivpn :: pydict where
  "good_pivpn = [(ustr ''service_ok'', PBool False), (ustr ''connected_clients'', PInt 1)]"

definition good_env :: "nat \<Rightarrow> cycle_outcome" where
  "good_env i = Collected good_system good_pihole good_pivpn"

definition torn_config :: config where
  "torn_config =
     \<lparr>shared = \<lparr>system = good_system, pihole = [], pivpn = [], last_error = None\<rparr>,
      origin_system = Some 0, origin_pihole = None, origin_pivpn = None,
      iteration = 0, writer = StorePihole good_pihole good_pivpn,
      readers = [Done (Some 0, good_system) (None, []) (None, [])]\<rparr>"

text \<open>The configuration after the whole of iteration 0, with the handler still idle.\<close>

definition published_config :: config where
  "published_config =
     \<lparr>shared = \<lparr>system = good_system, pihole = good_pihole, pivpn = good_pivpn, last_error = None\<rparr>,
      origin_system = Some 0, origin_pihole = Some 0, origin_pivpn = Some 0,
      iteration = 0, writer = Sleeping, readers = [Idle]\<rparr>"

section \<open>Properties\<close>

lemma ustr_inject [simp]: "ustr s = ustr t \<longleftrightarrow> s = t"
  unfolding ustr_def by (simp add: inj_map_eq_map inj_on_def)

lemma ustr_Nil [simp]: "ustr [] = []"
  by (simp add: ustr_def)

lemma ustr_Cons: "ustr (c # cs) = of_char c # ustr cs"
  by (simp add: ustr_def)

lemma ustr_eq_Nil [simp]: "ustr s = [] \<longleftrightarrow> s = []" "[] = ustr s \<longleftrightarrow> s = []"
  by (auto simp: ustr_def)

lemma strip_Nil [simp]: "strip [] = []"
  by (simp add: strip_def)

subsection \<open>Stripping twice\<close>

lemma rstrip_is_prefix: "\<exists>ys. t = rev (dropWhile P (rev t)) @ ys"
proof -
  have "rev (rev t) = rev (takeWhile P (rev t) @ dropWhile P (rev t))"
    by simp
  then have "t = rev (dropWhile P (rev t)) @ rev (takeWhile P (rev t))"
    by (simp del: takeWhile_dropWhile_id)
  then show ?thesis ..
qed

lemma strip_strip: "strip (strip s) = strip s"
proof -
  define t where "t = dropWhile is_space s"
  define u where "u = rev (dropWhile is_space (rev t))"
  have t: "t = [] \<or> \<not> is_space (hd t)"
    unfolding t_def by (metis dropWhile_eq_Nil_conv hd_dropWhile)
  obtain ys where ys: "t = u @ ys"
    unfolding u_def using rstrip_is_prefix by blast
  have "u = [] \<or> \<not> is_space (hd u)"
  proof (cases "u = []")
    case False
    then have "hd u = hd t" using ys by simp
    moreover have "t \<noteq> []" using ys False by simp
    ultimately show ?thesis using t by simp
  qed simp
  then have "dropWhile is_space u = u"
    by (cases u) auto
  moreover have "rev (dropWhile is_space (rev u)) = u"
    unfolding u_def by simp
  ultimately show ?thesis
    unfolding strip_def t_def[symmetric] u_def[symmetric] by simp
qed

subsection \<open>Command runner\<close>

lemma decode_hi: "decode_ignore ''hi\<newline>'' = ustr ''hi\<newline>''"
  by (simp add: decode_ignore_def ustr_def)

lemma strip_hi: "strip (ustr ''hi\<newline>'') = ustr ''hi''"
  by (simp add: strip_def is_space_def ustr_def)

text \<open>
  C8, as the code has it. \<open>run_cmd\<close> is a total function into texts, so no outcome of the
  child process raises to the caller. It returns the empty text when the process exits with
  a non-zero status, when the timeout expires, and when the process cannot be started
  (missing binary). When the process exits with status 0 it returns the captured output
  decoded as UTF-8 with undecodable bytes dropped (decoding cannot fail) and with leading
  and trailing whitespace stripped; so the text it returns never starts or ends with
  whitespace.
\<close>

theorem run_cmd_total_fallback:
  "run_cmd env cmd =
     (case env cmd of
        Exited rc out \<Rightarrow> if rc = 0 then strip (decode_ignore out) else []
      | TimedOut \<Rightarrow> []
      | NotStarted e \<Rightarrow> []) \<and>
   strip (run_cmd env cmd) = run_cmd env cmd"
proof
  show "run_cmd env cmd =
     (case env cmd of
        Exited rc out \<Rightarrow> if rc = 0 then strip (decode_ignore out) else []
      | TimedOut \<Rightarrow> []
      | NotStarted e \<Rightarrow> [])"
    by (simp add: run_cmd_def check_output_def split: proc_outcome.splits)
  show "strip (run_cmd env cmd) = run_cmd env cmd"
    by (cases "check_output (env cmd)") (simp_all add: run_cmd_def strip_strip)
qed

theorem run_cmd_total_fallback_witness:
  "run_cmd stray_byte_env [ustr ''tool''] = ustr ''ok''"
  using run_cmd_total_fallback [of stray_byte_env "[ustr ''tool'']"]
  by (simp add: stray_byte_env_def decode_ignore_def utf8_seq_def strip_def is_space_def ustr_def)

text \<open>
  C8 as stated fails on success: the command printed \<open>hi\<close> and a newline and exited with 0,
  the captured output as text is \<open>hi\<close> with the newline, and \<open>run_cmd\<close> returns \<open>hi\<close> alone.
\<close>

theorem run_cmd_output_not_verbatim:
  "check_output (echo_env [ustr ''echo'', ustr ''hi'']) = Inr ''hi\<newline>'' \<and>
   run_cmd echo_env [ustr ''echo'', ustr ''hi''] = ustr ''hi'' \<and>
   run_cmd echo_env [ustr ''echo'', ustr ''hi''] \<noteq> decode_ignore ''hi\<newline>''"
  by (simp add: run_cmd_def check_output_def echo_env_def decode_hi strip_hi)

subsection \<open>Liveness\<close>

lemma service_active_iff: "service_active env u \<longleftrightarrow> u \<noteq> [] \<and> reports_active env u"
  by (auto simp: service_active_def reports_active_def run_cmd_def check_output_def strip_strip
      split: proc_outcome.splits)

lemma any_active_ex: "any_active env units \<longleftrightarrow> (\<exists>u\<in>set units. service_active env u)"
  by (induction units) auto

lemma strip_decode_active: "strip (decode_ignore ''active\<newline>'') = ustr ''active''"
  by (simp add: decode_ignore_def strip_def is_space_def ustr_def)

lemma strip_decode_inactive: "strip (decode_ignore ''inactive\<newline>'') = ustr ''inactive''"
  by (simp add: decode_ignore_def strip_def is_space_def ustr_def)

lemma ab_env_reports:
  "\<not> reports_active ab_env (ustr ''a.service'')" "reports_active ab_env (ustr ''b.service'')"
  by (simp_all add: reports_active_def ab_env_def strip_decode_active)

text \<open>
  C9: for every list of unit names, the liveness result is true exactly when some unit of
  the list (with a non-empty name) is reported active by the service manager; this is the
  \<open>service_ok\<close> of both collectors for their configured lists; the empty list gives false;
  with the list a.service, b.service where only b.service is active the result is true.
\<close>

theorem liveness_or_semantics:
  "(any_active env units \<longleftrightarrow> (\<exists>u\<in>set units. u \<noteq> [] \<and> reports_active env u)) \<and>
   dget (collect_pihole_stats lib w) (ustr ''service_ok'') =
     PBool (\<exists>u\<in>set PIHOLE_SERVICES. reports_active (cmds w) u) \<and>
   dget (collect_pivpn_stats w) (ustr ''service_ok'') =
     PBool (\<exists>u\<in>set PIVPN_SERVICES. reports_active (cmds w) u) \<and>
   \<not> any_active env [] \<and>
   ((\<forall>u\<in>set units. \<not> reports_active env u) \<longrightarrow> \<not> any_active env units) \<and>
   any_active ab_env [ustr ''a.service'', ustr ''b.service'']"
  by (simp add: any_active_ex service_active_iff collect_pihole_stats_def
      collect_pivpn_stats_def dget_def Let_def PIHOLE_SERVICES_def PIVPN_SERVICES_def
      ab_env_reports)

theorem liveness_or_semantics_witness:
  "(\<exists>u\<in>set [ustr ''a.service'', ustr ''b.service'']. u \<noteq> [] \<and> reports_active ab_env u) \<and>
   \<not> reports_active ab_env (ustr ''a.service'') \<and>
   any_active ab_env [ustr ''a.service'', ustr ''b.service''] \<and>
   \<not> any_active ab_env [ustr ''a.service'']"
  using liveness_or_semantics [of ab_env "[ustr ''a.service'', ustr ''b.service'']"]
    liveness_or_semantics [of ab_env "[ustr ''a.service'']"]
  by (simp add: ab_env_reports)

subsection \<open>Temperature\<close>

text \<open>
  C4: the temperature is taken from the first candidate path that gives a numeric raw
  value; it is that value divided by 1000 when the value exceeds 200 and the value itself
  otherwise; when no candidate path gives a numeric raw value the temperature is absent.
  The function is total: an unreadable or unparseable path is skipped, not raised.
  The examples: 45000 gives 45.0, 45.0 stays, 199.9 stays, 200.1 is divided, and an
  unparseable content gives no temperature.
\<close>

theorem temperature_parsing:
  "get_cpu_temp_c lib fs =
     (case raw_reading lib fs (ustr ''/sys/class/thermal/thermal_zone0/temp'') of
        Some x \<Rightarrow> Some (if exceeds_200 x then div_1000 x else x)
      | None \<Rightarrow>
          (case raw_reading lib fs (ustr ''/sys/class/hwmon/hwmon0/temp1_input'') of
             Some x \<Rightarrow> Some (if exceeds_200 x then div_1000 x else x)
           | None \<Rightarrow> None)) \<and>
   (get_cpu_temp_c lib fs = None \<longleftrightarrow> list_all (\<lambda>p. raw_reading lib fs p = None) TEMP_PATHS) \<and>
   get_cpu_temp_c ex_lib (thermal_fs (ustr ''45000\<newline>'')) = Some (Finite 45) \<and>
   get_cpu_temp_c ex_lib (thermal_fs (ustr ''45.0\<newline>'')) = Some (Finite 45) \<and>
   get_cpu_temp_c ex_lib (thermal_fs (ustr ''199.9\<newline>'')) = Some (Finite 199.9) \<and>
   get_cpu_temp_c ex_lib (thermal_fs (ustr ''200.1\<newline>'')) = Some (Finite (200.1 / 1000)) \<and>
   get_cpu_temp_c ex_lib (thermal_fs (ustr ''warm'')) = None"
proof -
  have general: "get_cpu_temp_c lib fs =
     (case raw_reading lib fs (ustr ''/sys/class/thermal/thermal_zone0/temp'') of
        Some x \<Rightarrow> Some (if exceeds_200 x then div_1000 x else x)
      | None \<Rightarrow>
          (case raw_reading lib fs (ustr ''/sys/class/hwmon/hwmon0/temp1_input'') of
             Some x \<Rightarrow> Some (if exceeds_200 x then div_1000 x else x)
           | None \<Rightarrow> None))"
    by (simp add: get_cpu_temp_c_def TEMP_PATHS_def raw_reading_def
        split: file_state.splits float_conv.splits)
  have absent: "get_cpu_temp_c lib fs = None \<longleftrightarrow>
      list_all (\<lambda>p. raw_reading lib fs p = None) TEMP_PATHS"
    unfolding general by (simp add: TEMP_PATHS_def split: option.splits)
  have examples:
    "get_cpu_temp_c ex_lib (thermal_fs (ustr ''45000\<newline>'')) = Some (Finite 45)"
    "get_cpu_temp_c ex_lib (thermal_fs (ustr ''45.0\<newline>'')) = Some (Finite 45)"
    "get_cpu_temp_c ex_lib (thermal_fs (ustr ''199.9\<newline>'')) = Some (Finite 199.9)"
    "get_cpu_temp_c ex_lib (thermal_fs (ustr ''200.1\<newline>'')) = Some (Finite (200.1 / 1000))"
    "get_cpu_temp_c ex_lib (thermal_fs (ustr ''warm'')) = None"
    by (simp_all add: get_cpu_temp_c_def TEMP_PATHS_def thermal_fs_def ex_lib_def ex_float_def
        strip_def is_space_def ustr_def)
  from general absent examples show ?thesis by blast
qed

theorem temperature_parsing_witness:
  "raw_reading ex_lib (thermal_fs (ustr ''45000\<newline>''))
     (ustr ''/sys/class/thermal/thermal_zone0/temp'') = Some (Finite 45000) \<and>
   exceeds_200 (Finite 45000) \<and>
   get_cpu_temp_c ex_lib (thermal_fs (ustr ''45000\<newline>'')) = Some (Finite 45)"
  using temperature_parsing [of ex_lib "thermal_fs (ustr ''45000\<newline>'')"]
  by (simp add: raw_reading_def thermal_fs_def ex_lib_def ex_float_def strip_def is_space_def
      ustr_def)


subsection \<open>Ad-blocker statistics\<close>

lemma fill_stats_keys: "fst ` set (fill_stats data ks stats) \<subseteq> fst ` set stats \<union> set ks"
proof (induction ks arbitrary: stats)
  case Nil
  show ?case by simp
next
  case (Cons k ks)
  show ?case
  proof (cases "py_get data k")
    case (Inl e)
    then show ?thesis by auto
  next
    case (Inr v)
    have "fst ` set (fill_stats data ks (dset stats k v)) \<subseteq> fst ` set (dset stats k v) \<union> set ks"
      by (rule Cons.IH)
    moreover have "fst ` set (dset stats k v) = insert k (fst ` set stats)"
      using dom_update [of k v stats] by (simp add: dset_def)
    ultimately show ?thesis using Inr by auto
  qed
qed

lemma fill_stats_dict: "fill_stats (PDict d) STAT_KEYS [] = map (\<lambda>k. (k, dget d k)) STAT_KEYS"
  by (simp add: STAT_KEYS_def py_get_def dset_def)

lemma fill_stats_no_dict: "(\<forall>d. data \<noteq> PDict d) \<Longrightarrow> fill_stats data STAT_KEYS [] = []"
  by (cases data) (auto simp: py_get_def STAT_KEYS_def)

lemma strip_decode_not_json: "strip (decode_ignore ''not json'') = ustr ''not json''"
  by (simp add: decode_ignore_def strip_def is_space_def ustr_def)

text \<open>
  C7: the collector is a total function (nothing it does raises to the poll loop); its
  \<open>service_ok\<close> is the liveness check alone; the statistics are empty when the command output
  is empty, when \<open>json.loads\<close> raises, and when the JSON value is no object; when the JSON
  value is an object the statistics hold exactly the four allowlisted keys, each with the
  object's value or None; in every case no key outside the allowlist appears.
\<close>

theorem pihole_stats_fault_tolerance:
  "collect_pihole_stats lib w =
     [(ustr ''service_ok'', PBool (any_active (cmds w) PIHOLE_SERVICES)),
      (ustr ''stats'',
         PDict (pihole_stats_of lib (run_cmd (cmds w) [ustr ''pihole'', ustr ''-c'', ustr ''-j''])))] \<and>
   (raw = [] \<longrightarrow> pihole_stats_of lib raw = []) \<and>
   ((\<exists>e. json_loads lib raw = Inl e) \<longrightarrow> pihole_stats_of lib raw = []) \<and>
   ((\<exists>v. json_loads lib raw = Inr v \<and> (\<forall>d. v \<noteq> PDict d)) \<longrightarrow> pihole_stats_of lib raw = []) \<and>
   (\<forall>d. raw \<noteq> [] \<and> json_loads lib raw = Inr (PDict d) \<longrightarrow>
        pihole_stats_of lib raw = map (\<lambda>k. (k, dget d k)) STAT_KEYS) \<and>
   fst ` set (pihole_stats_of lib raw) \<subseteq> set STAT_KEYS"
proof -
  have allowlist: "fst ` set (pihole_stats_of lib raw) \<subseteq> set STAT_KEYS"
    apply (cases "raw \<noteq> []")
     apply (simp_all add: pihole_stats_of_def)
    apply (cases "json_loads lib raw")
     apply simp_all
    apply (rule order_trans [OF fill_stats_keys])
    apply simp
    done
  have shape: "collect_pihole_stats lib w =
     [(ustr ''service_ok'', PBool (any_active (cmds w) PIHOLE_SERVICES)),
      (ustr ''stats'',
         PDict (pihole_stats_of lib (run_cmd (cmds w) [ustr ''pihole'', ustr ''-c'', ustr ''-j''])))]"
    by (simp add: collect_pihole_stats_def Let_def)
  have no_dict: "(\<exists>v. json_loads lib raw = Inr v \<and> (\<forall>d. v \<noteq> PDict d)) \<longrightarrow>
      pihole_stats_of lib raw = []"
    by (auto simp: pihole_stats_of_def fill_stats_no_dict)
  have dict: "\<forall>d. raw \<noteq> [] \<and> json_loads lib raw = Inr (PDict d) \<longrightarrow>
        pihole_stats_of lib raw = map (\<lambda>k. (k, dget d k)) STAT_KEYS"
    by (simp add: pihole_stats_of_def fill_stats_dict)
  have fails: "(raw = [] \<longrightarrow> pihole_stats_of lib raw = [])"
    "((\<exists>e. json_loads lib raw = Inl e) \<longrightarrow> pihole_stats_of lib raw = [])"
    by (auto simp: pihole_stats_of_def)
  show ?thesis
    by (intro conjI) (fact shape fails no_dict dict allowlist)+
qed

theorem pihole_stats_fault_tolerance_witness:
  "pihole_stats_of ex_lib [] = [] \<and>
   json_loads ex_lib (ustr ''not json'') = Inl (PyExc (ustr ''JSONDecodeError'') (ustr ''Expecting value'')) \<and>
   pihole_stats_of ex_lib (ustr ''not json'') = [] \<and>
   json_loads ex_lib (ustr ''[1]'') = Inr (PList [PInt 1]) \<and>
   pihole_stats_of ex_lib (ustr ''[1]'') = [] \<and>
   pihole_stats_of ex_lib (ustr ''{\"ads_blocked_today\": 7, \"status\": \"enabled\"}'') =
     [(ustr ''dns_queries_today'', PNone), (ustr ''ads_blocked_today'', PInt 7),
      (ustr ''ads_percentage_today'', PNone), (ustr ''domains_being_blocked'', PNone)] \<and>
   collect_pihole_stats ex_lib good_world =
     [(ustr ''service_ok'', PBool True), (ustr ''stats'', PDict [])]"
  using pihole_stats_fault_tolerance [of ex_lib good_world "[]"]
    pihole_stats_fault_tolerance [of ex_lib good_world "ustr ''not json''"]
    pihole_stats_fault_tolerance [of ex_lib good_world "ustr ''[1]''"]
    pihole_stats_fault_tolerance [of ex_lib good_world
      "ustr ''{\"ads_blocked_today\": 7, \"status\": \"enabled\"}''"]
  by (simp add: ex_lib_def ex_loads_def good_world_def ex_cmds_def run_cmd_def check_output_def
      strip_decode_not_json PIHOLE_SERVICES_def service_active_iff reports_active_def
      strip_decode_active STAT_KEYS_def dget_def)

subsection \<open>VPN client count\<close>

lemma strip_empty_iff: "strip l = [] \<longleftrightarrow> list_all is_space l"
proof -
  have "strip l = [] \<longleftrightarrow> (\<forall>x\<in>set (dropWhile is_space l). is_space x)"
    by (simp add: strip_def dropWhile_eq_Nil_conv)
  also have "\<dots> \<longleftrightarrow> dropWhile is_space (dropWhile is_space l) = []"
    by (simp only: dropWhile_eq_Nil_conv)
  also have "\<dots> \<longleftrightarrow> list_all is_space l"
    by (simp add: dropWhile_eq_Nil_conv list_all_iff)
  finally show ?thesis .
qed

lemma client_lines_count: "length (client_lines raw) = nonblank_line_count raw"
  by (simp add: client_lines_def nonblank_line_count_def strip_empty_iff)

lemma connected_clients_of_count:
  "connected_clients_of raw =
     (if nonblank_line_count raw > 3 then PInt (int (nonblank_line_count raw) - 3) else PNone)"
  by (cases "raw = []")
    (simp_all add: connected_clients_of_def Let_def client_lines_count,
     simp add: nonblank_line_count_def splitlines_def)

lemma five_lines_clients: "connected_clients_of five_lines = PInt 2"
  by (simp add: connected_clients_of_def client_lines_def five_lines_def splitlines_def
      strip_def is_space_def is_linebreak_def ustr_def)

lemma five_lines_count: "nonblank_line_count five_lines = 5"
  by (simp add: nonblank_line_count_def five_lines_def splitlines_def is_space_def
      is_linebreak_def ustr_def)

lemma two_lines_clients: "connected_clients_of two_lines = PNone"
  by (simp add: connected_clients_of_def client_lines_def two_lines_def splitlines_def
      strip_def is_space_def is_linebreak_def ustr_def)

lemma blank_line_clients: "connected_clients_of blank_line_output = PInt 1"
  by (simp add: connected_clients_of_def client_lines_def blank_line_output_def splitlines_def
      strip_def is_space_def is_linebreak_def ustr_def)

lemma blank_line_nonempty: "nonempty_line_count blank_line_output = 5"
  by (simp add: nonempty_line_count_def blank_line_output_def splitlines_def is_linebreak_def
      ustr_def)

lemma blank_line_run_cmd:
  "run_cmd (ex_cmds ''not json'') [ustr ''pivpn'', ustr ''-c''] = blank_line_output"
  by (simp add: run_cmd_def ex_cmds_def check_output_def decode_ignore_def strip_def
      is_space_def blank_line_output_def ustr_def)

text \<open>
  C3, as the code has it: for every text the client-list command gave, \<open>connected_clients\<close>
  is the number of lines that hold at least one non-whitespace character minus 3 when that
  number exceeds 3, and None otherwise (so for the empty text); it is never an integer below
  1; three header lines and two client lines give 2, two lines give None; the collector
  stores this value for the text \<open>run_cmd\<close> returned.
\<close>

theorem vpn_client_count:
  "connected_clients_of raw =
     (if nonblank_line_count raw > 3 then PInt (int (nonblank_line_count raw) - 3) else PNone) \<and>
   connected_clients_of [] = PNone \<and>
   (\<forall>k. connected_clients_of raw = PInt k \<longrightarrow> 1 \<le> k) \<and>
   connected_clients_of five_lines = PInt 2 \<and>
   connected_clients_of two_lines = PNone \<and>
   dget (collect_pivpn_stats w) (ustr ''connected_clients'') =
     connected_clients_of (run_cmd (cmds w) [ustr ''pivpn'', ustr ''-c''])"
proof -
  have pos: "\<forall>k. connected_clients_of raw = PInt k \<longrightarrow> 1 \<le> k"
    by (auto simp: connected_clients_of_count split: if_splits)
  have stored: "dget (collect_pivpn_stats w) (ustr ''connected_clients'') =
      connected_clients_of (run_cmd (cmds w) [ustr ''pivpn'', ustr ''-c''])"
    by (simp add: collect_pivpn_stats_def Let_def dget_def)
  have "connected_clients_of [] = PNone"
    by (simp add: connected_clients_of_def)
  with pos stored connected_clients_of_count five_lines_clients two_lines_clients
  show ?thesis by blast
qed

theorem vpn_client_count_witness:
  "nonblank_line_count five_lines = 5 \<and> connected_clients_of five_lines = PInt 2 \<and>
   dget (collect_pivpn_stats good_world) (ustr ''connected_clients'') = PInt 1"
  using vpn_client_count [of five_lines good_world]
  by (simp add: good_world_def blank_line_run_cmd blank_line_clients five_lines_count)

text \<open>
  C3 as stated fails: the output below has five non-empty lines (one of them holds a single
  space), so the count of non-empty lines minus 3 is 2, and the code stores 1.
\<close>

theorem vpn_client_count_blank_line:
  "run_cmd (ex_cmds ''not json'') [ustr ''pivpn'', ustr ''-c''] = blank_line_output \<and>
   nonempty_line_count blank_line_output = 5 \<and>
   spec_connected_clients blank_line_output = PInt 2 \<and>
   connected_clients_of blank_line_output = PInt 1"
  by (simp add: blank_line_run_cmd blank_line_nonempty blank_line_clients
      spec_connected_clients_def)


subsection \<open>Poll loop\<close>

lemma good_world_temp: "get_cpu_temp_c ex_lib (files good_world) = Some (Finite 45)"
  by (simp add: good_world_def get_cpu_temp_c_def TEMP_PATHS_def thermal_fs_def ex_lib_def
      ex_float_def strip_def is_space_def ustr_def)

lemma good_world_uptime: "get_uptime_seconds ex_lib (files good_world) = None"
  by (simp add: good_world_def get_uptime_seconds_def thermal_fs_def)

lemma good_world_system: "collect_system_stats ex_lib good_world = Inr good_system"
  unfolding collect_system_stats_def good_world_temp good_world_uptime
  by (simp add: good_world_def good_probe_def good_system_def opt_float_def ustr_def)

lemma faulty_world_system: "collect_system_stats ex_lib faulty_world = Inl boom"
  by (simp add: collect_system_stats_def faulty_world_def faulty_probe_def good_world_def
      good_probe_def)

text \<open>
  C10: a collector raises in a cycle exactly when the cycle has a first fault; then the
  cycle's whole effect on the shared state is the single store of \<open>str(e)\<close> under
  \<open>last_error\<close>, so the \<open>system\<close>, \<open>pihole\<close> and \<open>pivpn\<close> entries are what they were before the
  cycle; this holds for the loop body on every machine whose system collector raises.
\<close>

theorem faulted_cycle_atomicity:
  "((isl sys_r \<or> isl ph_r \<or> isl pv_r) \<longleftrightarrow> (\<exists>e. first_fault sys_r ph_r pv_r = Some e)) \<and>
   (\<forall>e. first_fault sys_r ph_r pv_r = Some e \<longrightarrow>
      poll_cycle sys_r ph_r pv_r st = st\<lparr>last_error := Some (exc_str e)\<rparr> \<and>
      system (poll_cycle sys_r ph_r pv_r st) = system st \<and>
      pihole (poll_cycle sys_r ph_r pv_r st) = pihole st \<and>
      pivpn (poll_cycle sys_r ph_r pv_r st) = pivpn st \<and>
      last_error (poll_cycle sys_r ph_r pv_r st) = Some (exc_str e)) \<and>
   (\<forall>e. collect_system_stats lib w = Inl e \<longrightarrow>
      update_iteration lib w st = st\<lparr>last_error := Some (exc_str e)\<rparr>)"
proof -
  have raises: "(isl sys_r \<or> isl ph_r \<or> isl pv_r) \<longleftrightarrow> (\<exists>e. first_fault sys_r ph_r pv_r = Some e)"
    by (cases sys_r; cases ph_r; cases pv_r) (simp_all add: first_fault_def)
  have effect: "poll_cycle sys_r ph_r pv_r st = st\<lparr>last_error := Some (exc_str e)\<rparr>"
    if "first_fault sys_r ph_r pv_r = Some e" for e
    using that by (cases sys_r; cases ph_r; cases pv_r) (simp_all add: first_fault_def poll_cycle_def)
  have body: "update_iteration lib w st = st\<lparr>last_error := Some (exc_str e)\<rparr>"
    if "collect_system_stats lib w = Inl e" for e
    using that by (simp add: update_iteration_def poll_cycle_def)
  show ?thesis
    using raises body by (simp add: effect)
qed

theorem faulted_cycle_atomicity_witness:
  "first_fault (Inr good_system) (Inl boom) (Inr []) = Some boom \<and>
   poll_cycle (Inr good_system) (Inl boom) (Inr []) STATE_init =
     \<lparr>system = [], pihole = [], pivpn = [], last_error = Some (ustr ''boom'')\<rparr> \<and>
   collect_system_stats ex_lib faulty_world = Inl boom \<and>
   update_iteration ex_lib faulty_world (update_iteration ex_lib good_world STATE_init) =
     (update_iteration ex_lib good_world STATE_init)\<lparr>last_error := Some (ustr ''boom'')\<rparr>"
  using faulted_cycle_atomicity [of "Inr good_system" "Inl boom" "Inr []" STATE_init ex_lib faulty_world]
    faulted_cycle_atomicity [of "Inr good_system" "Inl boom" "Inr []"
      "update_iteration ex_lib good_world STATE_init" ex_lib faulty_world]
  by (simp add: first_fault_def faulty_world_system boom_def STATE_init_def)

text \<open>
  C2, as the code has it: a cycle in which no collector raises stores that cycle's three
  records under \<open>system\<close>, \<open>pihole\<close> and \<open>pivpn\<close> and does not touch \<open>last_error\<close>, which keeps
  the value it had before the cycle; this holds for the loop body on every machine whose
  system collector returns.
\<close>

theorem successful_cycle_publication:
  "poll_cycle (Inr s) (Inr p) (Inr v) st =
     \<lparr>system = s, pihole = p, pivpn = v, last_error = last_error st\<rparr> \<and>
   (\<forall>s'. collect_system_stats lib w = Inr s' \<longrightarrow>
      update_iteration lib w st =
        \<lparr>system = s', pihole = collect_pihole_stats lib w, pivpn = collect_pivpn_stats w,
         last_error = last_error st\<rparr>)"
  by (cases st) (simp add: poll_cycle_def update_iteration_def)

theorem successful_cycle_publication_witness:
  "collect_system_stats ex_lib good_world = Inr good_system \<and>
   update_iteration ex_lib good_world
       \<lparr>system = [], pihole = [], pivpn = [], last_error = Some (ustr ''boom'')\<rparr> =
     \<lparr>system = good_system, pihole = collect_pihole_stats ex_lib good_world,
      pivpn = collect_pivpn_stats good_world, last_error = Some (ustr ''boom'')\<rparr>"
  using successful_cycle_publication [of good_system "[]" "[]"
      "\<lparr>system = [], pihole = [], pivpn = [], last_error = Some (ustr ''boom'')\<rparr>" ex_lib good_world]
  by (simp add: good_world_system)

text \<open>
  C2 as stated fails: after a faulted cycle followed by a successful one, the snapshot's
  \<open>system\<close> entry is the successful cycle's record and its \<open>last_error\<close> is still the text the
  faulted cycle stored.
\<close>

theorem last_error_survives_success:
  "collect_system_stats ex_lib faulty_world = Inl boom \<and>
   collect_system_stats ex_lib good_world = Inr good_system \<and>
   system (update_loop ex_lib [faulty_world, good_world] STATE_init) = good_system \<and>
   last_error (update_loop ex_lib [faulty_world, good_world] STATE_init) = Some (ustr ''boom'')"
  by (simp add: faulty_world_system good_world_system update_iteration_def poll_cycle_def
      STATE_init_def boom_def)

lemma good_world_pihole:
  "collect_pihole_stats ex_lib good_world =
     [(ustr ''service_ok'', PBool True), (ustr ''stats'', PDict [])]"
  by (simp add: collect_pihole_stats_def Let_def good_world_def ex_cmds_def run_cmd_def
      check_output_def strip_decode_not_json pihole_stats_of_def ex_lib_def ex_loads_def
      PIHOLE_SERVICES_def service_active_iff reports_active_def strip_decode_active)

lemma good_world_pivpn:
  "collect_pivpn_stats good_world =
     [(ustr ''service_ok'', PBool False), (ustr ''connected_clients'', PInt 1)]"
proof -
  have "run_cmd (cmds good_world) [ustr ''pivpn'', ustr ''-c''] = blank_line_output"
    by (simp add: good_world_def blank_line_run_cmd)
  moreover have "\<not> any_active (cmds good_world) PIVPN_SERVICES"
    by (simp add: good_world_def PIVPN_SERVICES_def service_active_iff reports_active_def
        ex_cmds_def strip_decode_inactive)
  ultimately show ?thesis
    by (simp add: collect_pivpn_stats_def Let_def blank_line_clients)
qed


subsection \<open>Health projection\<close>

lemma bool_to_status_cases:
  "(bool_to_status v = ustr ''OK'' \<longleftrightarrow> v = PBool True) \<and>
   (bool_to_status v = ustr ''DOWN'' \<longleftrightarrow> v = PBool False) \<and>
   (bool_to_status v = ustr ''UNKNOWN'' \<longleftrightarrow> v \<noteq> PBool True \<and> v \<noteq> PBool False)"
  by (simp add: bool_to_status_def)




subsection \<open>Metrics projection\<close>








lemma has_metric_append [simp]:
  "has_metric n (xs @ ys) \<longleftrightarrow> has_metric n xs \<or> has_metric n ys"
  by (auto simp: has_metric_def list_ex_iff)

lemma has_metric_Nil [simp]: "\<not> has_metric n []"
  by (simp add: has_metric_def)



lemma has_metric_Cons [simp]:
  "has_metric n (x # xs) \<longleftrightarrow> prefix (n @ [32]) x \<or> has_metric n xs"
  by (simp add: has_metric_def)



















subsection \<open>Concurrent reads\<close>

lemma good_env_is_good_world:
  "collect_system_stats ex_lib good_world = Inr good_system \<and>
   collect_pihole_stats ex_lib good_world = good_pihole \<and>
   collect_pivpn_stats good_world = good_pivpn"
  by (simp add: good_world_system good_world_pihole good_world_pivpn good_pihole_def good_pivpn_def)

lemma torn_reachable: "reachable good_env (Suc 0) torn_config"
proof -
  let ?c0 = "initial_config (Suc 0)"
  let ?c1 = "?c0\<lparr>writer := StoreSystem good_system good_pihole good_pivpn\<rparr>"
  let ?c2 = "?c1\<lparr>shared := (shared ?c1)\<lparr>system := good_system\<rparr>,
                 origin_system := Some (iteration ?c1), writer := StorePihole good_pihole good_pivpn\<rparr>"
  let ?c3 = "?c2\<lparr>readers := (readers ?c2)[0 := GotSystem (origin_system ?c2, system (shared ?c2))]\<rparr>"
  let ?c4 = "?c3\<lparr>readers := (readers ?c3)[0 := GotPihole (Some 0, good_system)
                 (origin_pihole ?c3, pihole (shared ?c3))]\<rparr>"
  let ?c5 = "?c4\<lparr>readers := (readers ?c4)[0 := Done (Some 0, good_system) (None, [])
                 (origin_pivpn ?c4, pivpn (shared ?c4))]\<rparr>"
  have r0: "reachable good_env (Suc 0) ?c0"
    by (rule reachable.start)
  have "step good_env ?c0 ?c1"
    by (rule step.collect_ok) (simp_all add: initial_config_def good_env_def)
  with r0 have r1: "reachable good_env (Suc 0) ?c1"
    by (rule reachable.later)
  have "step good_env ?c1 ?c2"
    by (rule step.store_system) simp
  with r1 have r2: "reachable good_env (Suc 0) ?c2"
    by (rule reachable.later)
  have "step good_env ?c2 ?c3"
    by (rule step.read_system) (simp_all add: initial_config_def)
  with r2 have r3: "reachable good_env (Suc 0) ?c3"
    by (rule reachable.later)
  have "step good_env ?c3 ?c4"
    by (rule step.read_pihole) (simp_all add: initial_config_def)
  with r3 have r4: "reachable good_env (Suc 0) ?c4"
    by (rule reachable.later)
  have "step good_env ?c4 ?c5"
    by (rule step.read_pivpn) (simp_all add: initial_config_def STATE_init_def)
  with r4 have r5: "reachable good_env (Suc 0) ?c5"
    by (rule reachable.later)
  have "?c5 = torn_config"
    by (simp add: torn_config_def initial_config_def STATE_init_def)
  with r5 show ?thesis by simp
qed

lemma list_all_update:
  "list_all P xs \<Longrightarrow> P x \<Longrightarrow> list_all P (xs[i := x])"
  using set_update_subset_insert [of xs i x] by (auto simp: list_all_iff)

lemma writer_inv_readers [simp]: "writer_inv env (c\<lparr>readers := rs\<rparr>) = writer_inv env c"
  by (simp add: writer_inv_def split: writer_pc.splits)

lemma inv_initial: "config_inv env (initial_config n)"
  by (simp add: config_inv_def initial_config_def whole_def STATE_init_def writer_inv_def
      list_all_iff)

lemma inv_step: "step env c c' \<Longrightarrow> config_inv env c \<Longrightarrow> config_inv env c'"
proof (induction rule: step.induct)
  case (collect_ok c s p v)
  then show ?case by (auto simp: config_inv_def writer_inv_def)
next
  case (collect_fault c e)
  then show ?case by (auto simp: config_inv_def writer_inv_def)
next
  case (store_system c s p v)
  then show ?case by (auto simp: config_inv_def writer_inv_def whole_def)
next
  case (store_pihole c p v)
  then show ?case by (auto simp: config_inv_def writer_inv_def whole_def)
next
  case (store_pivpn c v)
  then show ?case by (auto simp: config_inv_def writer_inv_def whole_def)
next
  case (store_error c e)
  then show ?case by (auto simp: config_inv_def writer_inv_def)
next
  case (wake c)
  then show ?case by (auto simp: config_inv_def writer_inv_def)
next
  case (read_system i c)
  then show ?case
    by (simp add: config_inv_def list_all_update)
next
  case (read_pihole i c a)
  then have "reader_whole env (readers c ! i)"
    unfolding config_inv_def list_all_length by blast
  with read_pihole show ?case
    by (simp add: config_inv_def list_all_update)
next
  case (read_pivpn i c a b)
  then have "reader_whole env (readers c ! i)"
    unfolding config_inv_def list_all_length by blast
  with read_pivpn show ?case
    by (simp add: config_inv_def list_all_update)
next
  case (next_request i c a b d)
  then show ?case
    by (simp add: config_inv_def list_all_update)
qed

lemma inv_reachable: "reachable env n c \<Longrightarrow> config_inv env c \<and> length (readers c) = n"
proof (induction rule: reachable.induct)
  case start
  show ?case by (simp add: inv_initial) (simp add: initial_config_def)
next
  case (later c c')
  moreover have "length (readers c') = length (readers c)"
    using later.hyps(2) by (induction rule: step.induct) simp_all
  ultimately show ?case using inv_step by blast
qed


lemma writer_run_ok:
  assumes "writer c = Collecting" "env (iteration c) = Collected s p v"
  shows "(step env)\<^sup>*\<^sup>* c
           (c\<lparr>shared := poll_cycle (Inr s) (Inr p) (Inr v) (shared c),
              origin_system := Some (iteration c), origin_pihole := Some (iteration c),
              origin_pivpn := Some (iteration c), writer := Sleeping\<rparr>)"
proof -
  let ?c1 = "c\<lparr>writer := StoreSystem s p v\<rparr>"
  let ?c2 = "?c1\<lparr>shared := (shared ?c1)\<lparr>system := s\<rparr>, origin_system := Some (iteration ?c1),
                 writer := StorePihole p v\<rparr>"
  let ?c3 = "?c2\<lparr>shared := (shared ?c2)\<lparr>pihole := p\<rparr>, origin_pihole := Some (iteration ?c2),
                 writer := StorePivpn v\<rparr>"
  let ?c4 = "?c3\<lparr>shared := (shared ?c3)\<lparr>pivpn := v\<rparr>, origin_pivpn := Some (iteration ?c3),
                 writer := Sleeping\<rparr>"
  have "step env c ?c1"
    using assms by (rule step.collect_ok)
  moreover have "step env ?c1 ?c2"
    by (rule step.store_system) simp
  moreover have "step env ?c2 ?c3"
    by (rule step.store_pihole) simp
  moreover have "step env ?c3 ?c4"
    by (rule step.store_pivpn) simp
  ultimately have "(step env)\<^sup>*\<^sup>* c ?c4"
    by (meson rtranclp.rtrancl_into_rtrancl rtranclp.rtrancl_refl)
  moreover have "?c4 = c\<lparr>shared := poll_cycle (Inr s) (Inr p) (Inr v) (shared c),
              origin_system := Some (iteration c), origin_pihole := Some (iteration c),
              origin_pivpn := Some (iteration c), writer := Sleeping\<rparr>"
    by (simp add: poll_cycle_def)
  ultimately show ?thesis by simp
qed

lemma writer_run_fault:
  assumes "writer c = Collecting" "env (iteration c) = Faulted e"
  shows "(step env)\<^sup>*\<^sup>* c
           (c\<lparr>shared := poll_cycle (Inl e) ph_r pv_r (shared c), writer := Sleeping\<rparr>)"
proof -
  let ?c1 = "c\<lparr>writer := StoreError e\<rparr>"
  let ?c2 = "?c1\<lparr>shared := (shared ?c1)\<lparr>last_error := Some (exc_str e)\<rparr>, writer := Sleeping\<rparr>"
  have "step env c ?c1"
    using assms by (rule step.collect_fault)
  moreover have "step env ?c1 ?c2"
    by (rule step.store_error) simp
  ultimately have "(step env)\<^sup>*\<^sup>* c ?c2"
    by (meson rtranclp.rtrancl_into_rtrancl rtranclp.rtrancl_refl)
  moreover have "?c2 = c\<lparr>shared := poll_cycle (Inl e) ph_r pv_r (shared c), writer := Sleeping\<rparr>"
    by (simp add: poll_cycle_def)
  ultimately show ?thesis by simp
qed

lemma reachable_steps: "(step env)\<^sup>*\<^sup>* c c' \<Longrightarrow> reachable env n c \<Longrightarrow> reachable env n c'"
  by (induction rule: rtranclp_induct) (auto intro: reachable.later)

lemma published_reachable: "reachable good_env (Suc 0) published_config"
proof -
  have "(step good_env)\<^sup>*\<^sup>* (initial_config (Suc 0))
          ((initial_config (Suc 0))\<lparr>shared := poll_cycle (Inr good_system) (Inr good_pihole)
              (Inr good_pivpn) (shared (initial_config (Suc 0))),
            origin_system := Some (iteration (initial_config (Suc 0))),
            origin_pihole := Some (iteration (initial_config (Suc 0))),
            origin_pivpn := Some (iteration (initial_config (Suc 0))), writer := Sleeping\<rparr>)"
    by (rule writer_run_ok) (simp_all add: initial_config_def good_env_def)
  moreover have "(initial_config (Suc 0))\<lparr>shared := poll_cycle (Inr good_system) (Inr good_pihole)
              (Inr good_pivpn) (shared (initial_config (Suc 0))),
            origin_system := Some (iteration (initial_config (Suc 0))),
            origin_pihole := Some (iteration (initial_config (Suc 0))),
            origin_pivpn := Some (iteration (initial_config (Suc 0))), writer := Sleeping\<rparr>
      = published_config"
    by (simp add: initial_config_def published_config_def poll_cycle_def STATE_init_def)
  ultimately show ?thesis
    using reachable_steps reachable.start by metis
qed

text \<open>
  C1, as the code has it: in every configuration an execution with one poll loop and any
  number of request handlers reaches, each value a handler has read from an entry is whole
  (the initial empty dict, or exactly the record one iteration collected for that entry),
  and so is each stored entry; and whenever the loop body is not between the first and the
  last of its three assignments, the three stored entries are untorn (all initial or all
  from the same iteration), so a handler whose three reads fall there gets an untorn
  snapshot.
\<close>

theorem entries_whole_snapshot_untorn_outside_assignments:
  "reachable env n c \<Longrightarrow>
     length (readers c) = n \<and>
     list_all (reader_whole env) (readers c) \<and>
     whole env collected_system (origin_system c, system (shared c)) \<and>
     whole env collected_pihole (origin_pihole c, pihole (shared c)) \<and>
     whole env collected_pivpn (origin_pivpn c, pivpn (shared c)) \<and>
     (outside_assignments (writer c) \<longrightarrow>
        untorn (origin_system c, system (shared c)) (origin_pihole c, pihole (shared c))
          (origin_pivpn c, pivpn (shared c)))"
proof -
  assume "reachable env n c"
  then have inv: "config_inv env c" and len: "length (readers c) = n"
    using inv_reachable by blast+
  have "outside_assignments (writer c) \<longrightarrow>
        untorn (origin_system c, system (shared c)) (origin_pihole c, pihole (shared c))
          (origin_pivpn c, pivpn (shared c))"
    using inv by (cases "writer c") (simp_all add: config_inv_def writer_inv_def untorn_def)
  with inv len show ?thesis
    by (simp add: config_inv_def)
qed

theorem entries_whole_witness:
  "reachable good_env (Suc 0) published_config \<and>
   outside_assignments (writer published_config) \<and>
   untorn (Some 0, good_system) (Some 0, good_pihole) (Some 0, good_pivpn) \<and>
   reachable good_env (Suc 0) torn_config \<and>
   reader_whole good_env (Done (Some 0, good_system) (None, []) (None, []))"
proof -
  note published = entries_whole_snapshot_untorn_outside_assignments [OF published_reachable]
  note torn = entries_whole_snapshot_untorn_outside_assignments [OF torn_reachable]
  have "untorn (Some 0, good_system) (Some 0, good_pihole) (Some 0, good_pivpn)"
    using published by (simp add: published_config_def)
  moreover have "reader_whole good_env (Done (Some 0, good_system) (None, []) (None, []))"
    using torn by (simp add: torn_config_def)
  moreover have "outside_assignments (writer published_config)"
    by (simp add: published_config_def)
  ultimately show ?thesis
    using published_reachable torn_reachable by blast
qed

text \<open>
  C1 as stated fails: with one handler, the loop collects iteration 0 and assigns \<open>system\<close>;
  the handler then reads \<open>system\<close>, \<open>pihole\<close> and \<open>pivpn\<close> before the loop's second
  assignment. Its snapshot holds iteration 0's system record next to the initial empty
  \<open>pihole\<close> and \<open>pivpn\<close> dicts, and its health response reports the ad-blocker UNKNOWN
  although iteration 0 found it active.
\<close>

theorem torn_read_reachable:
  "reachable good_env (Suc 0) torn_config \<and>
   readers torn_config ! 0 = Done (Some 0, good_system) (None, []) (None, []) \<and>
   \<not> untorn (Some 0, good_system) (None, []) (None, []) \<and>
   good_env 0 = Collected good_system good_pihole good_pivpn \<and>
   dget good_system (ustr ''cpu_percent'') = PFloat (Finite 12.5) \<and>
   dget good_pihole (ustr ''service_ok'') = PBool True \<and>
   service_status
     (health_of \<lparr>system = good_system, pihole = [], pivpn = [], last_error = None\<rparr>)
     (ustr ''pihole'') = PStr (ustr ''UNKNOWN'')"
proof -
  have "readers torn_config ! 0 = Done (Some 0, good_system) (None, []) (None, [])"
    by (simp add: torn_config_def)
  moreover have "\<not> untorn (Some 0, good_system) (None, []) (None, [])"
    by (simp add: untorn_def)
  moreover have "good_env 0 = Collected good_system good_pihole good_pivpn"
    by (simp add: good_env_def)
  moreover have "dget good_system (ustr ''cpu_percent'') = PFloat (Finite 12.5)"
    by (simp add: good_system_def dget_def)
  moreover have "dget good_pihole (ustr ''service_ok'') = PBool True"
    by (simp add: good_pihole_def dget_def)
  moreover have "service_status
     (health_of \<lparr>system = good_system, pihole = [], pivpn = [], last_error = None\<rparr>)
     (ustr ''pihole'') = PStr (ustr ''UNKNOWN'')"
    by (simp add: service_status_def health_of_def Let_def dget_def bool_to_status_def)
  ultimately show ?thesis
    using torn_reachable by blast
qed

end
